theory Spec2Isabelle
  imports Complex_Main "HOL-Library.Log_Nat"
begin

section \<open>Data model of server/routes/system.ts\<close>

text \<open>
  The handlers of \<^verbatim>\<open>system.ts\<close> fail in two ways: an \<^verbatim>\<open>assert\<close> throws an
  AssertionError carrying a message, or the handler returns a message string in place
  of its payload. The messages of the source are Chinese string literals; each one is a
  constructor here, named after the source constant where the source names it:
  \<^item> \<open>UsernameEmpty\<close>: the literal of line 129 (username must not be empty);
  \<^item> \<open>UserNotExist\<close>: the literal of line 132 (user does not exist);
  \<^item> \<open>UserInSealList\<close>: the literal of line 135 (user already in the seal list);
  \<^item> \<open>CantSealLocalIp\<close>, \<open>CantSealSelf\<close>, \<open>IpInSealList\<close>: the constants of
    lines 163 to 165;
  \<^item> \<open>BaiduTokenFailed\<close>: the literal of line 111 (token request failed);
  \<^item> \<open>AxiosRejected\<close>: the rejection of \<^verbatim>\<open>axios.get\<close> itself, which the handler
    does not catch;
  \<^item> \<open>TypeError\<close>: the error of reading a property of \<^verbatim>\<open>null\<close> or
    \<^verbatim>\<open>undefined\<close> (\<^verbatim>\<open>res.data.access_token\<close> at line 113).
\<close>

datatype message =
    UsernameEmpty
  | UserNotExist
  | UserInSealList
  | CantSealLocalIp
  | CantSealSelf
  | IpInSealList
  | BaiduTokenFailed
  | AxiosRejected
  | TypeError

text \<open>What a handler returns: the object \<^verbatim>\<open>{ msg: 'ok' }\<close> or a message string.\<close>

datatype reply = MsgOk | Text message

text \<open>A call either throws (a failed \<^verbatim>\<open>assert\<close>) or returns a value.\<close>

datatype 'a result = Threw message | Returned 'a

subsection \<open>The in-memory store\<close>

datatype MemoryDataStorageKey = SealUserList | SealIpList

text \<open>
  One key collection per storage key. The keys are kept in insertion order, without
  duplicates, which is what \<^verbatim>\<open>[...list.keys()]\<close> and \<^verbatim>\<open>Array.from(list.keys())\<close>
  of the source read back.
\<close>

type_synonym memory = "MemoryDataStorageKey \<Rightarrow> string list"

text \<open>
  The module \<^verbatim>\<open>../memoryData\<close> is imported by the source and is not part of
  it; its four operations follow the contract of section 4.1 of the specification.
  Arming the removal is done by the handlers themselves (\<^verbatim>\<open>setTimeout\<close>), so it is
  not part of these operations.
\<close>

text \<open>
  Modelled from the spec: \<^verbatim>\<open>getMemoryData\<close> of \<^verbatim>\<open>../memoryData\<close> is missing;
  \<open>list(namespace)\<close> is the collection of the keys of the namespace.
\<close>

definition getMemoryData :: "memory \<Rightarrow> MemoryDataStorageKey \<Rightarrow> string list" where
  "getMemoryData m k = m k"

text \<open>
  Modelled from the spec: \<^verbatim>\<open>existMemoryData\<close> of \<^verbatim>\<open>../memoryData\<close> is missing;
  \<open>exists(namespace, key)\<close> is a pure read that tells whether the key is present.
\<close>

definition existMemoryData :: "memory \<Rightarrow> MemoryDataStorageKey \<Rightarrow> string \<Rightarrow> bool" where
  "existMemoryData m k v = (v \<in> set (m k))"

text \<open>
  Modelled from the spec: \<^verbatim>\<open>addMemoryData\<close> of \<^verbatim>\<open>../memoryData\<close> is missing;
  \<open>insert(namespace, key)\<close> records the entry, and there is at most one entry per
  namespace and key: inserting a present key is not an overwrite. The handlers check
  \<open>existMemoryData\<close> themselves before every call.
\<close>

definition addMemoryData :: "memory \<Rightarrow> MemoryDataStorageKey \<Rightarrow> string \<Rightarrow> memory" where
  "addMemoryData m k v = (if v \<in> set (m k) then m else m(k := m k @ [v]))"

text \<open>
  Modelled from the spec: \<^verbatim>\<open>deleteMemoryData\<close> of \<^verbatim>\<open>../memoryData\<close> is missing;
  \<open>remove(namespace, key)\<close> is idempotent, and removing an absent key does nothing.
\<close>

definition deleteMemoryData :: "memory \<Rightarrow> MemoryDataStorageKey \<Rightarrow> string \<Rightarrow> memory" where
  "deleteMemoryData m k v = m(k := removeAll v (m k))"

text \<open>
  A call of \<^verbatim>\<open>setTimeout\<close>. Every callback of the source is
  \<^verbatim>\<open>deleteMemoryData(key, value)\<close>, so a timer is the instant at which it was armed,
  its delay, and the entry its callback deletes. When the runtime runs the callback is
  not decided by the source and is not modelled.
\<close>

record timer =
  armedAt :: nat
  delay :: nat
  target :: MemoryDataStorageKey
  entry :: string

text \<open>
  The mutable state the seal handlers share: the store, and the timers armed so far in
  the order of the calls of \<^verbatim>\<open>setTimeout\<close>.
\<close>

record server =
  memoryData :: memory
  timers :: "timer list"

definition setTimeout :: "nat \<Rightarrow> MemoryDataStorageKey \<Rightarrow> string \<Rightarrow> nat \<Rightarrow> server \<Rightarrow> server" where
  "setTimeout now k v d st =
     st\<lparr>timers := timers st @ [\<lparr>armedAt = now, delay = d, target = k, entry = v\<rparr>]\<rparr>"

text \<open>
  The constants \<^verbatim>\<open>SealUserTimeout\<close> and \<^verbatim>\<open>SealIpTimeout\<close> come from
  \<^verbatim>\<open>utils/const\<close>, which is not part of the source: they are parameters.
\<close>

record constants =
  SealUserTimeout :: nat
  SealIpTimeout :: nat

subsection \<open>Collaborators\<close>

text \<open>
  The user and socket collections are lists of documents, in the order the database
  returns them. \<open>user_id\<close> is \<^verbatim>\<open>user._id.toString()\<close>. The queries are modelled as
  answering; each is awaited before the handler touches the store, and the code between
  the last \<^verbatim>\<open>await\<close> and the \<^verbatim>\<open>return\<close> of a handler runs without interruption.
\<close>

record user =
  user_id :: string
  username :: string

record socket =
  socket_user :: string
  socket_ip :: string

text \<open>\<^verbatim>\<open>User.findOne({ username })\<close>: the first matching document, or null.\<close>

definition User_findOne :: "user list \<Rightarrow> string \<Rightarrow> user option" where
  "User_findOne db name = find (\<lambda>u. username u = name) db"

text \<open>\<^verbatim>\<open>User.find({ _id: { $in: userIds } })\<close>.\<close>

definition User_find :: "user list \<Rightarrow> string list \<Rightarrow> user list" where
  "User_find db userIds = filter (\<lambda>u. user_id u \<in> set userIds) db"

text \<open>\<^verbatim>\<open>Socket.find({ user: userId })\<close>.\<close>

definition Socket_find :: "socket list \<Rightarrow> string \<Rightarrow> socket list" where
  "Socket_find sockets userId = filter (\<lambda>s. socket_user s = userId) sockets"

section \<open>The handlers\<close>

subsection \<open>sealUser (lines 127 to 145)\<close>

definition sealUser :: "constants \<Rightarrow> user list \<Rightarrow> nat \<Rightarrow> string \<Rightarrow> server \<Rightarrow> reply result \<times> server" where
  "sealUser c db now name st =
     (if name = [] then (Threw UsernameEmpty, st)
      else case User_findOne db name of
        None \<Rightarrow> (Threw UserNotExist, st)
      | Some u \<Rightarrow>
          (let userId = user_id u in
           if existMemoryData (memoryData st) SealUserList userId
           then (Threw UserInSealList, st)
           else (Returned MsgOk,
                 setTimeout now SealUserList userId (SealUserTimeout c)
                   (st\<lparr>memoryData := addMemoryData (memoryData st) SealUserList userId\<rparr>))))"

subsection \<open>getSealList (lines 150 to 161)\<close>

record sealList =
  users :: "string list"
  ips :: "string list"

definition getSealList :: "user list \<Rightarrow> server \<Rightarrow> sealList" where
  "getSealList db st =
     (let sealUserList = getMemoryData (memoryData st) SealUserList;
          sealIpList = getMemoryData (memoryData st) SealIpList;
          userIds = sealUserList;
          found = User_find db userIds
      in \<lparr>users = map username found, ips = sealIpList\<rparr>)"

subsection \<open>sealIp (lines 170 to 184)\<close>

text \<open>\<open>socketIp\<close> is \<^verbatim>\<open>ctx.socket.ip\<close>, the address of the requester.\<close>

definition sealIp :: "constants \<Rightarrow> nat \<Rightarrow> string \<Rightarrow> string \<Rightarrow> server \<Rightarrow> reply result \<times> server" where
  "sealIp c now socketIp ip st =
     (if \<not> (ip \<noteq> ''::1'' \<and> ip \<noteq> ''127.0.0.1'') then (Threw CantSealLocalIp, st)
      else if \<not> (ip \<noteq> socketIp) then (Threw CantSealSelf, st)
      else if existMemoryData (memoryData st) SealIpList ip then (Threw IpInSealList, st)
      else (Returned MsgOk,
            setTimeout now SealIpList ip (SealIpTimeout c)
              (st\<lparr>memoryData := addMemoryData (memoryData st) SealIpList ip\<rparr>)))"

subsection \<open>sealUserOnlineIp (lines 189 to 222)\<close>

text \<open>
  The body of \<^verbatim>\<open>ipList.forEach\<close>, run over the list from the left. \<open>errorMessage\<close>
  starts as the empty string, which is \<open>None\<close> here: every message assigned to it is a
  non-empty literal, so \<^verbatim>\<open>if (errorMessage)\<close> tests whether one was assigned.
\<close>

fun forEach_ip :: "constants \<Rightarrow> nat \<Rightarrow> string \<Rightarrow> string list \<Rightarrow> server \<times> message option
    \<Rightarrow> server \<times> message option" where
  "forEach_ip c now socketIp [] acc = acc"
| "forEach_ip c now socketIp (ip # rest) (st, errorMessage) =
     (if ip = ''::1'' \<or> ip = ''127.0.0.1''
      then forEach_ip c now socketIp rest (st, Some CantSealLocalIp)
      else if ip = socketIp
      then forEach_ip c now socketIp rest (st, Some CantSealSelf)
      else if \<not> existMemoryData (memoryData st) SealIpList ip
      then forEach_ip c now socketIp rest
             (setTimeout now SealIpList ip (SealIpTimeout c)
                (st\<lparr>memoryData := addMemoryData (memoryData st) SealIpList ip\<rparr>),
              errorMessage)
      else forEach_ip c now socketIp rest (st, errorMessage))"

definition sealUserOnlineIp ::
    "constants \<Rightarrow> socket list \<Rightarrow> nat \<Rightarrow> string \<Rightarrow> string \<Rightarrow> server \<Rightarrow> reply result \<times> server" where
  "sealUserOnlineIp c sockets now socketIp userId st =
     (let ipList = map socket_ip (Socket_find sockets userId) in
      if \<not> \<not> list_all (\<lambda>ip. existMemoryData (memoryData st) SealIpList ip) ipList
      then (Threw IpInSealList, st)
      else case forEach_ip c now socketIp ipList (st, None) of
             (st', Some errorMessage) \<Rightarrow> (Returned (Text errorMessage), st')
           | (st', None) \<Rightarrow> (Returned MsgOk, st'))"

subsection \<open>getBaiduToken (lines 103 to 116)\<close>

text \<open>
  The numbers of the language are IEEE 754 doubles: not-a-number, the two infinities,
  and the finite doubles, each given by its rational value. The sign of zero is not
  kept: no operation of \<^verbatim>\<open>getBaiduToken\<close> tells the two zeros apart.
\<close>

datatype number = NaN | PosInf | NegInf | Fin rat

text \<open>The power of two with an integer exponent.\<close>

definition pow2 :: "int \<Rightarrow> rat" where
  "pow2 k = (if 0 \<le> k then 2 ^ nat k else 1 / 2 ^ nat (- k))"

text \<open>The exponent of a positive rational: \<open>2 ^ e \<le> a < 2 ^ (e + 1)\<close>.\<close>

definition ilog2 :: "rat \<Rightarrow> int" where
  "ilog2 a = (if 1 \<le> a then bitlen \<lfloor>a\<rfloor> - 1 else - bitlen (\<lceil>1 / a\<rceil> - 1))"

text \<open>The nearest integer, the even one of the two when they are equally near.\<close>

definition roundTiesToEven :: "rat \<Rightarrow> int" where
  "roundTiesToEven q =
     (let f = \<lfloor>q\<rfloor>; d = q - of_int f in
      if d < 1 / 2 then f
      else if 1 / 2 < d then f + 1
      else if even f then f else f + 1)"

text \<open>
  The double nearest to a rational, ties to even: the rounding that every arithmetic
  operation of the language applies to its exact result. The doubles of exponent
  \<open>e\<close> are the multiples of \<open>2 ^ (e - 52)\<close>, the subnormal ones the multiples of
  \<open>2 ^ (- 1074)\<close>, and a result that rounds to \<open>2 ^ 1024\<close> or more is infinite.
\<close>

definition round64 :: "rat \<Rightarrow> number" where
  "round64 r =
     (if r = 0 then Fin 0
      else let a = \<bar>r\<bar>;
               e = max (ilog2 a) (- 1022);
               ulp = pow2 (e - 52);
               m = of_int (roundTiesToEven (a / ulp)) * ulp
           in if pow2 1024 \<le> m then (if r < 0 then NegInf else PosInf)
              else Fin (if r < 0 then - m else m))"

text \<open>The operators \<^verbatim>\<open>-\<close> (unary and binary), \<^verbatim>\<open>+\<close>, \<^verbatim>\<open>*\<close> and \<^verbatim>\<open><\<close> on numbers.\<close>

fun neg64 :: "number \<Rightarrow> number" where
  "neg64 NaN = NaN"
| "neg64 PosInf = NegInf"
| "neg64 NegInf = PosInf"
| "neg64 (Fin a) = Fin (- a)"

fun add64 :: "number \<Rightarrow> number \<Rightarrow> number" where
  "add64 NaN y = NaN"
| "add64 x NaN = NaN"
| "add64 (Fin a) (Fin b) = round64 (a + b)"
| "add64 PosInf NegInf = NaN"
| "add64 NegInf PosInf = NaN"
| "add64 PosInf y = PosInf"
| "add64 NegInf y = NegInf"
| "add64 x PosInf = PosInf"
| "add64 x NegInf = NegInf"

definition sub64 :: "number \<Rightarrow> number \<Rightarrow> number" where
  "sub64 x y = add64 x (neg64 y)"

fun mul64 :: "number \<Rightarrow> number \<Rightarrow> number" where
  "mul64 NaN y = NaN"
| "mul64 x NaN = NaN"
| "mul64 (Fin a) (Fin b) = round64 (a * b)"
| "mul64 (Fin a) PosInf = (if a = 0 then NaN else if 0 < a then PosInf else NegInf)"
| "mul64 (Fin a) NegInf = (if a = 0 then NaN else if 0 < a then NegInf else PosInf)"
| "mul64 PosInf (Fin b) = (if b = 0 then NaN else if 0 < b then PosInf else NegInf)"
| "mul64 NegInf (Fin b) = (if b = 0 then NaN else if 0 < b then NegInf else PosInf)"
| "mul64 PosInf PosInf = PosInf"
| "mul64 PosInf NegInf = NegInf"
| "mul64 NegInf PosInf = NegInf"
| "mul64 NegInf NegInf = PosInf"

fun lt64 :: "number \<Rightarrow> number \<Rightarrow> bool" where
  "lt64 NaN y = False"
| "lt64 x NaN = False"
| "lt64 (Fin a) (Fin b) = (a < b)"
| "lt64 NegInf NegInf = False"
| "lt64 NegInf y = True"
| "lt64 x NegInf = False"
| "lt64 PosInf y = False"
| "lt64 x PosInf = True"

text \<open>
  The values that JSON data holds, and \<^verbatim>\<open>undefined\<close>, which is what reading a
  missing property gives.
\<close>

datatype jsval =
    JUndefined
  | JNull
  | JBoolean bool
  | JNumber number
  | JString string
  | JArray "jsval list"
  | JObject "(string \<times> jsval) list"

text \<open>The truthiness that \<^verbatim>\<open>baiduToken && ...\<close> tests.\<close>

fun ToBoolean :: "jsval \<Rightarrow> bool" where
  "ToBoolean JUndefined = False"
| "ToBoolean JNull = False"
| "ToBoolean (JBoolean b) = b"
| "ToBoolean (JNumber n) = (n \<noteq> NaN \<and> n \<noteq> Fin 0)"
| "ToBoolean (JString s) = (s \<noteq> [])"
| "ToBoolean (JArray xs) = True"
| "ToBoolean (JObject ps) = True"

text \<open>
  The two module variables, and a count of the requests sent to the token provider.
  The count is not a variable of the source: it records the effect of \<^verbatim>\<open>axios.get\<close>.
\<close>

record tokenCache =
  baiduToken :: jsval
  lastBaiduTokenTime :: number
  requests :: nat

text \<open>
  What line 113 and line 114 read from \<^verbatim>\<open>res.data\<close>: \<open>access_token\<close> is the
  value of the property (\<^verbatim>\<open>undefined\<close> when it is missing), and \<open>expires_in\<close> is
  the number to which the subtraction of line 114 converts the property
  (not-a-number when it is missing).
\<close>

record tokenData =
  access_token :: jsval
  expires_in :: number

text \<open>
  The answer of the provider. \<open>data\<close> is \<open>None\<close> when \<^verbatim>\<open>res.data\<close> is
  \<^verbatim>\<open>null\<close> or \<^verbatim>\<open>undefined\<close>, where reading a property throws.
\<close>

record response =
  status :: int
  data :: "tokenData option"

text \<open>
  \<open>now1\<close> is \<^verbatim>\<open>Date.now()\<close> of line 104 and \<open>now2\<close> the one of line 114, read after
  the request has come back; \<^verbatim>\<open>Date.now()\<close> is a whole number of milliseconds, of
  magnitude at most 8.64e15, and so a double. \<open>res\<close> is what \<^verbatim>\<open>axios.get\<close> gives if
  it is called: \<open>None\<close> when the promise is rejected. The product
  \<^verbatim>\<open>60 * 60 * 24\<close> of line 114 is exact.
\<close>

definition getBaiduToken :: "int \<Rightarrow> int \<Rightarrow> response option \<Rightarrow> tokenCache \<Rightarrow> jsval result \<times> tokenCache" where
  "getBaiduToken now1 now2 res st =
     (if ToBoolean (baiduToken st) \<and> lt64 (Fin (of_int now1)) (lastBaiduTokenTime st)
      then (Returned (baiduToken st), st)
      else (let st1 = st\<lparr>requests := requests st + 1\<rparr> in
        (case res of
          None \<Rightarrow> (Threw AxiosRejected, st1)
        | Some r \<Rightarrow>
            (if status r \<noteq> 200 then (Threw BaiduTokenFailed, st1)
             else (case data r of
               None \<Rightarrow> (Threw TypeError, st1)
             | Some d \<Rightarrow>
                 (Returned (access_token d),
                  st1\<lparr>baiduToken := access_token d,
                      lastBaiduTokenTime :=
                        add64 (Fin (of_int now2))
                          (mul64 (sub64 (expires_in d) (Fin (60 * 60 * 24))) (Fin 1000))\<rparr>))))))"

subsection \<open>Vocabulary of the properties\<close>

text \<open>The condition of lines 172 and 203: the address is one of the two loopback literals.\<close>

definition loopback :: "string \<Rightarrow> bool" where
  "loopback ip = (ip = ''::1'' \<or> ip = ''127.0.0.1'')"

text \<open>
  The message that the loop of \<open>sealUserOnlineIp\<close> assigns for an address it refuses
  (lines 203 to 206): the loopback test comes first.
\<close>

definition violation :: "string \<Rightarrow> message" where
  "violation ip = (if loopback ip then CantSealLocalIp else CantSealSelf)"

text \<open>The timer armed at lines 177 and 209 for an address sealed at instant \<open>now\<close>.\<close>

definition sealTimer :: "constants \<Rightarrow> nat \<Rightarrow> string \<Rightarrow> timer" where
  "sealTimer c now ip = \<lparr>armedAt = now, delay = SealIpTimeout c, target = SealIpList, entry = ip\<rparr>"

text \<open>The state in which nothing is sealed and no timer has been armed.\<close>

definition initialServer :: server where
  "initialServer = \<lparr>memoryData = (\<lambda>k. []), timers = []\<rparr>"

text \<open>Lines 24 and 26: no token, and \<open>lastBaiduTokenTime\<close> is the instant of loading.\<close>

definition initialTokenCache :: "int \<Rightarrow> tokenCache" where
  "initialTokenCache loaded =
     \<lparr>baiduToken = JString [], lastBaiduTokenTime = Fin (of_int loaded), requests = 0\<rparr>"

text \<open>Concrete collaborators and durations (in milliseconds), used to run the handlers.\<close>

definition exampleTimeouts :: constants where
  "exampleTimeouts = \<lparr>SealUserTimeout = 600000, SealIpTimeout = 21600000\<rparr>"

definition exampleUsers :: "user list" where
  "exampleUsers =
     [\<lparr>user_id = ''5d01'', username = ''alice''\<rparr>,
      \<lparr>user_id = ''5d02'', username = ''bob''\<rparr>]"

definition exampleSockets :: "socket list" where
  "exampleSockets =
     [\<lparr>socket_user = ''5d01'', socket_ip = ''10.0.0.2''\<rparr>,
      \<lparr>socket_user = ''5d02'', socket_ip = ''127.0.0.1''\<rparr>,
      \<lparr>socket_user = ''5d02'', socket_ip = ''10.0.0.3''\<rparr>,
      \<lparr>socket_user = ''5d01'', socket_ip = ''10.0.0.4''\<rparr>]"

section \<open>Properties\<close>

subsection \<open>The loop of sealUserOnlineIp\<close>

lemma forEach_ip_skip:
  "loopback ip \<or> ip = s \<Longrightarrow>
   forEach_ip c now s (ip # rest) (st, e) = forEach_ip c now s rest (st, Some (violation ip))"
  unfolding loopback_def violation_def by (cases "ip = ''::1'' \<or> ip = ''127.0.0.1''") simp_all

lemma forEach_ip_present:
  "\<not> loopback ip \<Longrightarrow> ip \<noteq> s \<Longrightarrow> ip \<in> set (memoryData st SealIpList) \<Longrightarrow>
   forEach_ip c now s (ip # rest) (st, e) = forEach_ip c now s rest (st, e)"
  unfolding loopback_def by (simp add: existMemoryData_def)

lemma forEach_ip_add:
  "\<not> loopback ip \<Longrightarrow> ip \<noteq> s \<Longrightarrow> ip \<notin> set (memoryData st SealIpList) \<Longrightarrow>
   forEach_ip c now s (ip # rest) (st, e) =
     forEach_ip c now s rest
       (st\<lparr>memoryData := (memoryData st)(SealIpList := memoryData st SealIpList @ [ip]),
           timers := timers st @ [sealTimer c now ip]\<rparr>, e)"
  unfolding loopback_def
  by (simp add: existMemoryData_def addMemoryData_def setTimeout_def sealTimer_def)

lemma forEach_ip_message:
  "snd (forEach_ip c now s ipList (st, e)) =
     (if \<exists>ip \<in> set ipList. loopback ip \<or> ip = s
      then Some (violation (last (filter (\<lambda>ip. loopback ip \<or> ip = s) ipList)))
      else e)"
proof (induction ipList arbitrary: st e)
  case Nil
  show ?case by simp
next
  case (Cons ip rest)
  consider (skip) "loopback ip \<or> ip = s"
    | (present) "\<not> loopback ip" "ip \<noteq> s" "ip \<in> set (memoryData st SealIpList)"
    | (add) "\<not> loopback ip" "ip \<noteq> s" "ip \<notin> set (memoryData st SealIpList)"
    by blast
  then show ?case
  proof cases
    case skip
    have "forEach_ip c now s (ip # rest) (st, e)
            = forEach_ip c now s rest (st, Some (violation ip))"
      by (rule forEach_ip_skip [OF skip])
    then show ?thesis
      using skip Cons.IH [of st "Some (violation ip)"]
      by (simp del: forEach_ip.simps add: filter_empty_conv)
  next
    case present
    have "forEach_ip c now s (ip # rest) (st, e) = forEach_ip c now s rest (st, e)"
      by (rule forEach_ip_present [OF present])
    then show ?thesis
      using present Cons.IH [of st e] by (simp del: forEach_ip.simps)
  next
    case add
    let ?st1 = "st\<lparr>memoryData := (memoryData st)(SealIpList := memoryData st SealIpList @ [ip]),
                    timers := timers st @ [sealTimer c now ip]\<rparr>"
    have "forEach_ip c now s (ip # rest) (st, e) = forEach_ip c now s rest (?st1, e)"
      by (rule forEach_ip_add [OF add])
    then show ?thesis
      using add Cons.IH [of ?st1 e] by (simp del: forEach_ip.simps)
  qed
qed

lemma forEach_ip_users:
  "memoryData (fst (forEach_ip c now s ipList (st, e))) SealUserList = memoryData st SealUserList"
  by (induction ipList arbitrary: st e)
     (auto simp: setTimeout_def addMemoryData_def existMemoryData_def)

lemma forEach_ip_store:
  "\<exists>added.
     memoryData (fst (forEach_ip c now s ipList (st, e))) SealIpList
       = memoryData st SealIpList @ added \<and>
     timers (fst (forEach_ip c now s ipList (st, e)))
       = timers st @ map (sealTimer c now) added \<and>
     distinct added \<and>
     set added = {ip \<in> set ipList. \<not> loopback ip \<and> ip \<noteq> s
                    \<and> ip \<notin> set (memoryData st SealIpList)}"
proof (induction ipList arbitrary: st e)
  case Nil
  show ?case by simp
next
  case (Cons ip rest)
  consider (skip) "loopback ip \<or> ip = s"
    | (present) "\<not> loopback ip" "ip \<noteq> s" "ip \<in> set (memoryData st SealIpList)"
    | (add) "\<not> loopback ip" "ip \<noteq> s" "ip \<notin> set (memoryData st SealIpList)"
    by blast
  then show ?case
  proof cases
    case skip
    have eq: "forEach_ip c now s (ip # rest) (st, e)
            = forEach_ip c now s rest (st, Some (violation ip))"
      by (rule forEach_ip_skip [OF skip])
    from Cons.IH [of st "Some (violation ip)"] obtain added where
      a: "memoryData (fst (forEach_ip c now s rest (st, Some (violation ip)))) SealIpList
            = memoryData st SealIpList @ added"
         "timers (fst (forEach_ip c now s rest (st, Some (violation ip))))
            = timers st @ map (sealTimer c now) added"
         "distinct added"
         "set added = {x \<in> set rest. \<not> loopback x \<and> x \<noteq> s
                        \<and> x \<notin> set (memoryData st SealIpList)}"
      by blast
    have "set added = {x \<in> set (ip # rest). \<not> loopback x \<and> x \<noteq> s
                        \<and> x \<notin> set (memoryData st SealIpList)}"
      using skip a(4) by auto
    with a(1-3) show ?thesis unfolding eq by blast
  next
    case present
    have eq: "forEach_ip c now s (ip # rest) (st, e) = forEach_ip c now s rest (st, e)"
      by (rule forEach_ip_present [OF present])
    from Cons.IH [of st e] obtain added where
      a: "memoryData (fst (forEach_ip c now s rest (st, e))) SealIpList
            = memoryData st SealIpList @ added"
         "timers (fst (forEach_ip c now s rest (st, e)))
            = timers st @ map (sealTimer c now) added"
         "distinct added"
         "set added = {x \<in> set rest. \<not> loopback x \<and> x \<noteq> s
                        \<and> x \<notin> set (memoryData st SealIpList)}"
      by blast
    have "set added = {x \<in> set (ip # rest). \<not> loopback x \<and> x \<noteq> s
                        \<and> x \<notin> set (memoryData st SealIpList)}"
      using present a(4) by auto
    with a(1-3) show ?thesis unfolding eq by blast
  next
    case add
    let ?st1 = "st\<lparr>memoryData := (memoryData st)(SealIpList := memoryData st SealIpList @ [ip]),
                    timers := timers st @ [sealTimer c now ip]\<rparr>"
    have eq: "forEach_ip c now s (ip # rest) (st, e) = forEach_ip c now s rest (?st1, e)"
      by (rule forEach_ip_add [OF add])
    from Cons.IH [of ?st1 e] obtain added where
      a: "memoryData (fst (forEach_ip c now s rest (?st1, e))) SealIpList
            = memoryData ?st1 SealIpList @ added"
         "timers (fst (forEach_ip c now s rest (?st1, e)))
            = timers ?st1 @ map (sealTimer c now) added"
         "distinct added"
         "set added = {x \<in> set rest. \<not> loopback x \<and> x \<noteq> s
                        \<and> x \<notin> set (memoryData ?st1 SealIpList)}"
      by blast
    have 1: "memoryData (fst (forEach_ip c now s rest (?st1, e))) SealIpList
               = memoryData st SealIpList @ (ip # added)"
      using a(1) by simp
    have 2: "timers (fst (forEach_ip c now s rest (?st1, e)))
               = timers st @ map (sealTimer c now) (ip # added)"
      using a(2) by simp
    have 3: "distinct (ip # added)"
      using a(3,4) by simp
    have 4: "set (ip # added) = {x \<in> set (ip # rest). \<not> loopback x \<and> x \<noteq> s
                                   \<and> x \<notin> set (memoryData st SealIpList)}"
      using a(4) add by auto
    from 1 2 3 4 show ?thesis unfolding eq by blast
  qed
qed

subsection \<open>Sealing an address\<close>

text \<open>
  C3. \<open>sealIp\<close> throws the local-address message when the address is \<open>::1\<close> or
  \<open>127.0.0.1\<close>, whatever the store holds; otherwise it throws the self-seal message
  when the address is the requester's; otherwise it throws the already-sealed message
  when the address is in the ip seal list; otherwise it succeeds, the address is added
  to the ip seal list and nothing else of the store changes.
\<close>

theorem sealIp_cases:
  "(ip = ''::1'' \<or> ip = ''127.0.0.1'' \<longrightarrow>
      fst (sealIp c now socketIp ip st) = Threw CantSealLocalIp) \<and>
   (ip \<noteq> ''::1'' \<and> ip \<noteq> ''127.0.0.1'' \<and> ip = socketIp \<longrightarrow>
      fst (sealIp c now socketIp ip st) = Threw CantSealSelf) \<and>
   (ip \<noteq> ''::1'' \<and> ip \<noteq> ''127.0.0.1'' \<and> ip \<noteq> socketIp \<and>
    existMemoryData (memoryData st) SealIpList ip \<longrightarrow>
      fst (sealIp c now socketIp ip st) = Threw IpInSealList) \<and>
   (ip \<noteq> ''::1'' \<and> ip \<noteq> ''127.0.0.1'' \<and> ip \<noteq> socketIp \<and>
    \<not> existMemoryData (memoryData st) SealIpList ip \<longrightarrow>
      fst (sealIp c now socketIp ip st) = Returned MsgOk \<and>
      existMemoryData (memoryData (snd (sealIp c now socketIp ip st))) SealIpList ip \<and>
      set (memoryData (snd (sealIp c now socketIp ip st)) SealIpList)
        = insert ip (set (memoryData st SealIpList)) \<and>
      memoryData (snd (sealIp c now socketIp ip st)) SealUserList
        = memoryData st SealUserList)"
  by (auto simp: sealIp_def setTimeout_def existMemoryData_def addMemoryData_def)

theorem sealIp_cases_witness:
  "fst (sealIp exampleTimeouts 5 ''10.0.0.1'' ''127.0.0.1''
          (snd (sealIp exampleTimeouts 1 ''10.0.0.1'' ''10.0.0.2'' initialServer)))
     = Threw CantSealLocalIp \<and>
   fst (sealIp exampleTimeouts 5 ''10.0.0.2'' ''10.0.0.2''
          (snd (sealIp exampleTimeouts 1 ''10.0.0.1'' ''10.0.0.2'' initialServer)))
     = Threw CantSealSelf \<and>
   existMemoryData
     (memoryData (snd (sealIp exampleTimeouts 1 ''10.0.0.1'' ''10.0.0.2'' initialServer)))
     SealIpList ''10.0.0.2'' \<and>
   fst (sealIp exampleTimeouts 5 ''10.0.0.1'' ''10.0.0.2''
          (snd (sealIp exampleTimeouts 1 ''10.0.0.1'' ''10.0.0.2'' initialServer)))
     = Threw IpInSealList \<and>
   \<not> existMemoryData
     (memoryData (snd (sealIp exampleTimeouts 1 ''10.0.0.1'' ''10.0.0.2'' initialServer)))
     SealIpList ''10.0.0.3'' \<and>
   fst (sealIp exampleTimeouts 5 ''10.0.0.1'' ''10.0.0.3''
          (snd (sealIp exampleTimeouts 1 ''10.0.0.1'' ''10.0.0.2'' initialServer)))
     = Returned MsgOk \<and>
   set (memoryData
          (snd (sealIp exampleTimeouts 5 ''10.0.0.1'' ''10.0.0.3''
             (snd (sealIp exampleTimeouts 1 ''10.0.0.1'' ''10.0.0.2'' initialServer))))
          SealIpList)
     = {''10.0.0.2'', ''10.0.0.3''}"
  using
    sealIp_cases [of "''127.0.0.1''" exampleTimeouts 5 "''10.0.0.1''"
      "snd (sealIp exampleTimeouts 1 ''10.0.0.1'' ''10.0.0.2'' initialServer)"]
    sealIp_cases [of "''10.0.0.2''" exampleTimeouts 5 "''10.0.0.2''"
      "snd (sealIp exampleTimeouts 1 ''10.0.0.1'' ''10.0.0.2'' initialServer)"]
    sealIp_cases [of "''10.0.0.2''" exampleTimeouts 5 "''10.0.0.1''"
      "snd (sealIp exampleTimeouts 1 ''10.0.0.1'' ''10.0.0.2'' initialServer)"]
    sealIp_cases [of "''10.0.0.3''" exampleTimeouts 5 "''10.0.0.1''"
      "snd (sealIp exampleTimeouts 1 ''10.0.0.1'' ''10.0.0.2'' initialServer)"]
  by (simp add: sealIp_def setTimeout_def existMemoryData_def addMemoryData_def
        initialServer_def)

subsection \<open>Sealing a user\<close>

lemma User_findOne_Some:
  "User_findOne db name = Some u \<Longrightarrow> u \<in> set db \<and> username u = name"
  by (auto simp: User_findOne_def find_Some_iff)

text \<open>
  C4. \<open>sealUser\<close> throws the empty-username message when the username is empty;
  otherwise the not-found message when no user has that name; otherwise the
  already-sealed message when the identifier of the user found is in the user seal
  list; otherwise it succeeds and adds that identifier, not the name, to the user seal
  list, leaving the ip seal list as it was.
\<close>

theorem sealUser_cases:
  "(name = [] \<longrightarrow> fst (sealUser c db now name st) = Threw UsernameEmpty) \<and>
   (name \<noteq> [] \<and> User_findOne db name = None \<longrightarrow>
      fst (sealUser c db now name st) = Threw UserNotExist) \<and>
   (name \<noteq> [] \<and> User_findOne db name = Some u \<and>
    existMemoryData (memoryData st) SealUserList (user_id u) \<longrightarrow>
      fst (sealUser c db now name st) = Threw UserInSealList) \<and>
   (name \<noteq> [] \<and> User_findOne db name = Some u \<and>
    \<not> existMemoryData (memoryData st) SealUserList (user_id u) \<longrightarrow>
      fst (sealUser c db now name st) = Returned MsgOk \<and>
      memoryData (snd (sealUser c db now name st)) SealUserList
        = memoryData st SealUserList @ [user_id u] \<and>
      memoryData (snd (sealUser c db now name st)) SealIpList = memoryData st SealIpList)"
  by (simp add: sealUser_def Let_def setTimeout_def existMemoryData_def addMemoryData_def)

theorem sealUser_cases_witness:
  "fst (sealUser exampleTimeouts exampleUsers 5 [] initialServer) = Threw UsernameEmpty \<and>
   User_findOne exampleUsers ''carol'' = None \<and>
   fst (sealUser exampleTimeouts exampleUsers 5 ''carol'' initialServer) = Threw UserNotExist \<and>
   User_findOne exampleUsers ''bob'' = Some \<lparr>user_id = ''5d02'', username = ''bob''\<rparr> \<and>
   fst (sealUser exampleTimeouts exampleUsers 5 ''bob''
          (snd (sealUser exampleTimeouts exampleUsers 1 ''bob'' initialServer)))
     = Threw UserInSealList \<and>
   fst (sealUser exampleTimeouts exampleUsers 1 ''bob'' initialServer) = Returned MsgOk \<and>
   memoryData (snd (sealUser exampleTimeouts exampleUsers 1 ''bob'' initialServer)) SealUserList
     = [''5d02''] \<and>
   \<not> existMemoryData
        (memoryData (snd (sealUser exampleTimeouts exampleUsers 1 ''bob'' initialServer)))
        SealUserList ''bob''"
  using
    sealUser_cases [of "[]" exampleTimeouts exampleUsers 5 initialServer]
    sealUser_cases [of "''carol''" exampleTimeouts exampleUsers 5 initialServer]
    sealUser_cases [where name = "''bob''" and db = exampleUsers and c = exampleTimeouts
      and u = "\<lparr>user_id = ''5d02'', username = ''bob''\<rparr>" and now = 5
      and st = "snd (sealUser exampleTimeouts exampleUsers 1 ''bob'' initialServer)"]
    sealUser_cases [where name = "''bob''" and db = exampleUsers and c = exampleTimeouts
      and u = "\<lparr>user_id = ''5d02'', username = ''bob''\<rparr>" and now = 1
      and st = initialServer]
  by (simp add: sealUser_def Let_def setTimeout_def existMemoryData_def addMemoryData_def
        initialServer_def exampleUsers_def User_findOne_def)

subsection \<open>A failed seal changes nothing\<close>

text \<open>
  C5. A call of \<open>sealUser\<close> or \<open>sealIp\<close> that does not succeed returns the state
  it was given: the store holds the same keys and no timer has been armed. A call for
  a key that is already sealed is such a call, so the timer armed when the key was
  sealed is still the only one for it, with its instant and delay unchanged.
\<close>

theorem failed_seal_leaves_state:
  "(fst (sealUser c db now name st) \<noteq> Returned MsgOk \<longrightarrow>
      snd (sealUser c db now name st) = st) \<and>
   (fst (sealIp c now socketIp ip st) \<noteq> Returned MsgOk \<longrightarrow>
      snd (sealIp c now socketIp ip st) = st) \<and>
   (User_findOne db name = Some u \<and>
    existMemoryData (memoryData st) SealUserList (user_id u) \<longrightarrow>
      fst (sealUser c db now name st) \<noteq> Returned MsgOk \<and>
      memoryData (snd (sealUser c db now name st)) = memoryData st \<and>
      timers (snd (sealUser c db now name st)) = timers st) \<and>
   (existMemoryData (memoryData st) SealIpList ip \<longrightarrow>
      fst (sealIp c now socketIp ip st) \<noteq> Returned MsgOk \<and>
      memoryData (snd (sealIp c now socketIp ip st)) = memoryData st \<and>
      timers (snd (sealIp c now socketIp ip st)) = timers st)"
proof -
  have "fst (sealUser c db now name st) \<noteq> Returned MsgOk \<longrightarrow>
          snd (sealUser c db now name st) = st"
    by (simp add: sealUser_def Let_def split: option.splits)
  moreover have "fst (sealIp c now socketIp ip st) \<noteq> Returned MsgOk \<longrightarrow>
          snd (sealIp c now socketIp ip st) = st"
    by (simp add: sealIp_def)
  moreover have "User_findOne db name = Some u \<and>
      existMemoryData (memoryData st) SealUserList (user_id u) \<longrightarrow>
        fst (sealUser c db now name st) \<noteq> Returned MsgOk \<and>
        memoryData (snd (sealUser c db now name st)) = memoryData st \<and>
        timers (snd (sealUser c db now name st)) = timers st"
    by (simp add: sealUser_def Let_def)
  moreover have "existMemoryData (memoryData st) SealIpList ip \<longrightarrow>
        fst (sealIp c now socketIp ip st) \<noteq> Returned MsgOk \<and>
        memoryData (snd (sealIp c now socketIp ip st)) = memoryData st \<and>
        timers (snd (sealIp c now socketIp ip st)) = timers st"
    by (simp add: sealIp_def)
  ultimately show ?thesis by blast
qed

theorem failed_seal_leaves_state_witness:
  "fst (sealUser exampleTimeouts exampleUsers 5 ''bob''
          (snd (sealUser exampleTimeouts exampleUsers 1 ''bob'' initialServer)))
     = Threw UserInSealList \<and>
   timers (snd (sealUser exampleTimeouts exampleUsers 5 ''bob''
          (snd (sealUser exampleTimeouts exampleUsers 1 ''bob'' initialServer))))
     = [\<lparr>armedAt = 1, delay = 600000, target = SealUserList, entry = ''5d02''\<rparr>] \<and>
   memoryData (snd (sealUser exampleTimeouts exampleUsers 5 ''bob''
          (snd (sealUser exampleTimeouts exampleUsers 1 ''bob'' initialServer)))) SealUserList
     = [''5d02''] \<and>
   fst (sealIp exampleTimeouts 5 ''10.0.0.1'' ''10.0.0.2''
          (snd (sealIp exampleTimeouts 1 ''10.0.0.1'' ''10.0.0.2'' initialServer)))
     = Threw IpInSealList \<and>
   timers (snd (sealIp exampleTimeouts 5 ''10.0.0.1'' ''10.0.0.2''
          (snd (sealIp exampleTimeouts 1 ''10.0.0.1'' ''10.0.0.2'' initialServer))))
     = [\<lparr>armedAt = 1, delay = 21600000, target = SealIpList, entry = ''10.0.0.2''\<rparr>] \<and>
   memoryData (snd (sealIp exampleTimeouts 5 ''10.0.0.1'' ''10.0.0.2''
          (snd (sealIp exampleTimeouts 1 ''10.0.0.1'' ''10.0.0.2'' initialServer)))) SealIpList
     = [''10.0.0.2'']"
  using
    failed_seal_leaves_state [where name = "''bob''" and db = exampleUsers
      and c = exampleTimeouts and now = 5 and socketIp = "''10.0.0.1''" and ip = "''10.0.0.2''"
      and u = "\<lparr>user_id = ''5d02'', username = ''bob''\<rparr>"
      and st = "snd (sealUser exampleTimeouts exampleUsers 1 ''bob'' initialServer)"]
    failed_seal_leaves_state [where name = "''bob''" and db = exampleUsers
      and c = exampleTimeouts and now = 5 and socketIp = "''10.0.0.1''" and ip = "''10.0.0.2''"
      and u = "\<lparr>user_id = ''5d02'', username = ''bob''\<rparr>"
      and st = "snd (sealIp exampleTimeouts 1 ''10.0.0.1'' ''10.0.0.2'' initialServer)"]
  by (simp add: sealUser_def sealIp_def Let_def setTimeout_def existMemoryData_def
        addMemoryData_def initialServer_def exampleUsers_def exampleTimeouts_def
        User_findOne_def)

subsection \<open>Sealing the addresses of a user's sockets\<close>

lemma sealUserOnlineIp_refused:
  "list_all (\<lambda>ip. existMemoryData (memoryData st) SealIpList ip)
     (map socket_ip (Socket_find sockets userId)) \<Longrightarrow>
   sealUserOnlineIp c sockets now socketIp userId st = (Threw IpInSealList, st)"
  by (simp add: sealUserOnlineIp_def)

lemma sealUserOnlineIp_pass:
  "\<not> list_all (\<lambda>ip. existMemoryData (memoryData st) SealIpList ip)
       (map socket_ip (Socket_find sockets userId)) \<Longrightarrow>
   sealUserOnlineIp c sockets now socketIp userId st =
     (case snd (forEach_ip c now socketIp (map socket_ip (Socket_find sockets userId)) (st, None)) of
        Some errorMessage \<Rightarrow> Returned (Text errorMessage)
      | None \<Rightarrow> Returned MsgOk,
      fst (forEach_ip c now socketIp (map socket_ip (Socket_find sockets userId)) (st, None)))"
  by (simp add: sealUserOnlineIp_def Let_def split: prod.splits option.splits)

text \<open>
  C10. When the socket collection has no socket of the user, \<open>sealUserOnlineIp\<close>
  throws the message \<open>IpInSealList\<close>, the one \<open>sealIp\<close> throws for a sealed
  address, and returns the state it was given.
\<close>

theorem sealUserOnlineIp_no_socket:
  "Socket_find sockets userId = [] \<Longrightarrow>
   sealUserOnlineIp c sockets now socketIp userId st = (Threw IpInSealList, st)"
  by (simp add: sealUserOnlineIp_def)

theorem sealUserOnlineIp_no_socket_witness:
  "Socket_find exampleSockets ''5d09'' = [] \<and>
   sealUserOnlineIp exampleTimeouts exampleSockets 7 ''10.0.0.1'' ''5d09'' initialServer
     = (Threw IpInSealList, initialServer)"
proof -
  have h: "Socket_find exampleSockets ''5d09'' = []"
    by (simp add: Socket_find_def exampleSockets_def)
  show ?thesis
    using h sealUserOnlineIp_no_socket [OF h, of exampleTimeouts 7 "''10.0.0.1''" initialServer]
    by simp
qed

text \<open>
  C6, as the code has it. When every address of the user's sockets is in the ip seal
  list, \<open>sealUserOnlineIp\<close> throws \<open>IpInSealList\<close> and returns the state it was
  given. The message is the one \<open>sealIp\<close> throws for any of those addresses that is
  neither loopback nor the requester's: the two failures are the same error.
\<close>

theorem sealUserOnlineIp_all_sealed:
  "\<forall>ip \<in> set (map socket_ip (Socket_find sockets userId)).
      existMemoryData (memoryData st) SealIpList ip \<Longrightarrow>
   sealUserOnlineIp c sockets now socketIp userId st = (Threw IpInSealList, st) \<and>
   (\<forall>ip \<in> set (map socket_ip (Socket_find sockets userId)).
      \<not> loopback ip \<and> ip \<noteq> socketIp \<longrightarrow>
      fst (sealIp c now socketIp ip st)
        = fst (sealUserOnlineIp c sockets now socketIp userId st))"
proof -
  assume all: "\<forall>ip \<in> set (map socket_ip (Socket_find sockets userId)).
      existMemoryData (memoryData st) SealIpList ip"
  then have "list_all (\<lambda>ip. existMemoryData (memoryData st) SealIpList ip)
               (map socket_ip (Socket_find sockets userId))"
    by (simp only: list_all_iff)
  then have r: "sealUserOnlineIp c sockets now socketIp userId st = (Threw IpInSealList, st)"
    by (rule sealUserOnlineIp_refused)
  have "fst (sealIp c now socketIp ip st) = Threw IpInSealList"
    if "ip \<in> set (map socket_ip (Socket_find sockets userId))"
       "\<not> loopback ip" "ip \<noteq> socketIp" for ip
  proof -
    from all that(1) have "existMemoryData (memoryData st) SealIpList ip" by blast
    with that(2,3) show ?thesis by (simp add: sealIp_def loopback_def)
  qed
  with r show ?thesis by simp
qed

theorem sealUserOnlineIp_all_sealed_witness:
  "map socket_ip (Socket_find exampleSockets ''5d01'') = [''10.0.0.2'', ''10.0.0.4''] \<and>
   sealUserOnlineIp exampleTimeouts exampleSockets 7 ''10.0.0.1'' ''5d01''
       \<lparr>memoryData = (\<lambda>k. [])(SealIpList := [''10.0.0.4'', ''10.0.0.2'']), timers = []\<rparr>
     = (Threw IpInSealList, \<lparr>memoryData = (\<lambda>k. [])(SealIpList := [''10.0.0.4'', ''10.0.0.2'']), timers = []\<rparr>)"
proof -
  have h: "\<forall>ip \<in> set (map socket_ip (Socket_find exampleSockets ''5d01'')).
      existMemoryData (memoryData \<lparr>memoryData = (\<lambda>k. [])(SealIpList := [''10.0.0.4'', ''10.0.0.2'']), timers = []\<rparr>)
        SealIpList ip"
    by (simp add: Socket_find_def exampleSockets_def existMemoryData_def)
  have "map socket_ip (Socket_find exampleSockets ''5d01'') = [''10.0.0.2'', ''10.0.0.4'']"
    by (simp add: Socket_find_def exampleSockets_def)
  then show ?thesis
    using sealUserOnlineIp_all_sealed [OF h, of exampleTimeouts 7 "''10.0.0.1''"]
    by simp
qed

theorem sealUserOnlineIp_all_sealed_counterexample:
  "existMemoryData
     (memoryData (snd (sealIp exampleTimeouts 1 ''10.0.0.1'' ''10.0.0.3'' initialServer)))
     SealIpList ''10.0.0.3'' \<and>
   map socket_ip
     (Socket_find [\<lparr>socket_user = ''5d02'', socket_ip = ''10.0.0.3''\<rparr>] ''5d02'')
     = [''10.0.0.3''] \<and>
   fst (sealUserOnlineIp exampleTimeouts
          [\<lparr>socket_user = ''5d02'', socket_ip = ''10.0.0.3''\<rparr>] 7 ''10.0.0.1'' ''5d02''
          (snd (sealIp exampleTimeouts 1 ''10.0.0.1'' ''10.0.0.3'' initialServer)))
     = Threw IpInSealList \<and>
   fst (sealIp exampleTimeouts 7 ''10.0.0.1'' ''10.0.0.3''
          (snd (sealIp exampleTimeouts 1 ''10.0.0.1'' ''10.0.0.3'' initialServer)))
     = Threw IpInSealList"
  by (simp add: sealUserOnlineIp_def sealIp_def Socket_find_def setTimeout_def
        existMemoryData_def addMemoryData_def initialServer_def)

lemma sealUserOnlineIp_pass_reply:
  assumes "\<not> list_all (\<lambda>ip. existMemoryData (memoryData st) SealIpList ip)
             (map socket_ip (Socket_find sockets userId))"
  shows "fst (sealUserOnlineIp c sockets now socketIp userId st) =
           (if \<exists>ip \<in> set (map socket_ip (Socket_find sockets userId)). loopback ip \<or> ip = socketIp
            then Returned (Text (violation (last (filter (\<lambda>ip. loopback ip \<or> ip = socketIp)
                    (map socket_ip (Socket_find sockets userId))))))
            else Returned MsgOk)"
  unfolding sealUserOnlineIp_pass [OF assms] forEach_ip_message
  by simp

lemma sealUserOnlineIp_pass_store:
  assumes "\<not> list_all (\<lambda>ip. existMemoryData (memoryData st) SealIpList ip)
             (map socket_ip (Socket_find sockets userId))"
  shows "set (memoryData (snd (sealUserOnlineIp c sockets now socketIp userId st)) SealIpList)
           = set (memoryData st SealIpList) \<union>
             {ip \<in> set (map socket_ip (Socket_find sockets userId)).
                \<not> loopback ip \<and> ip \<noteq> socketIp}"
    and "set (timers (snd (sealUserOnlineIp c sockets now socketIp userId st)))
           = set (timers st) \<union>
             sealTimer c now `
               {ip \<in> set (map socket_ip (Socket_find sockets userId)).
                  \<not> loopback ip \<and> ip \<noteq> socketIp \<and> ip \<notin> set (memoryData st SealIpList)}"
    and "memoryData (snd (sealUserOnlineIp c sockets now socketIp userId st)) SealUserList
           = memoryData st SealUserList"
proof -
  let ?ipList = "map socket_ip (Socket_find sockets userId)"
  let ?st' = "fst (forEach_ip c now socketIp ?ipList (st, None))"
  have st': "snd (sealUserOnlineIp c sockets now socketIp userId st) = ?st'"
    unfolding sealUserOnlineIp_pass [OF assms] by simp
  obtain added where
    a: "memoryData ?st' SealIpList = memoryData st SealIpList @ added"
       "timers ?st' = timers st @ map (sealTimer c now) added"
       "set added = {ip \<in> set ?ipList. \<not> loopback ip \<and> ip \<noteq> socketIp
                       \<and> ip \<notin> set (memoryData st SealIpList)}"
    using forEach_ip_store [of c now socketIp ?ipList st None] by blast
  show "set (memoryData (snd (sealUserOnlineIp c sockets now socketIp userId st)) SealIpList)
           = set (memoryData st SealIpList) \<union>
             {ip \<in> set ?ipList. \<not> loopback ip \<and> ip \<noteq> socketIp}"
    unfolding st' a(1) using a(3) by auto
  show "set (timers (snd (sealUserOnlineIp c sockets now socketIp userId st)))
           = set (timers st) \<union>
             sealTimer c now `
               {ip \<in> set ?ipList. \<not> loopback ip \<and> ip \<noteq> socketIp
                  \<and> ip \<notin> set (memoryData st SealIpList)}"
    unfolding st' a(2) using a(3) by simp
  show "memoryData (snd (sealUserOnlineIp c sockets now socketIp userId st)) SealUserList
           = memoryData st SealUserList"
    unfolding st' by (rule forEach_ip_users)
qed

text \<open>
  C8, as the code has it. When the user has at least one socket and no address of the
  user's sockets is loopback, the requester's or already sealed, \<open>sealUserOnlineIp\<close>
  returns \<open>{ msg: 'ok' }\<close>, every one of the addresses is in the ip seal list
  afterwards, a timer with the ip delay has been armed for each at the instant of the
  call, and nothing else is added to the store.
\<close>

theorem sealUserOnlineIp_all_clean:
  assumes "Socket_find sockets userId \<noteq> []"
    and "\<forall>ip \<in> set (map socket_ip (Socket_find sockets userId)).
           \<not> loopback ip \<and> ip \<noteq> socketIp \<and> \<not> existMemoryData (memoryData st) SealIpList ip"
  shows "fst (sealUserOnlineIp c sockets now socketIp userId st) = Returned MsgOk \<and>
    (\<forall>ip \<in> set (map socket_ip (Socket_find sockets userId)).
       existMemoryData (memoryData (snd (sealUserOnlineIp c sockets now socketIp userId st)))
         SealIpList ip) \<and>
    set (memoryData (snd (sealUserOnlineIp c sockets now socketIp userId st)) SealIpList)
      = set (memoryData st SealIpList) \<union> set (map socket_ip (Socket_find sockets userId)) \<and>
    set (timers (snd (sealUserOnlineIp c sockets now socketIp userId st)))
      = set (timers st) \<union> sealTimer c now ` set (map socket_ip (Socket_find sockets userId)) \<and>
    memoryData (snd (sealUserOnlineIp c sockets now socketIp userId st)) SealUserList
      = memoryData st SealUserList"
proof -
  let ?ipList = "map socket_ip (Socket_find sockets userId)"
  from assms(1) obtain ip where "ip \<in> set ?ipList"
    by (cases "Socket_find sockets userId") auto
  with assms(2) have pass: "\<not> list_all (\<lambda>ip. existMemoryData (memoryData st) SealIpList ip) ?ipList"
    unfolding list_all_iff by blast
  have clean: "{ip \<in> set ?ipList. \<not> loopback ip \<and> ip \<noteq> socketIp} = set ?ipList"
    using assms(2) by blast
  have fresh: "{ip \<in> set ?ipList. \<not> loopback ip \<and> ip \<noteq> socketIp
                  \<and> ip \<notin> set (memoryData st SealIpList)} = set ?ipList"
    using assms(2) unfolding existMemoryData_def by blast
  have 1: "fst (sealUserOnlineIp c sockets now socketIp userId st) = Returned MsgOk"
    unfolding sealUserOnlineIp_pass_reply [OF pass] using assms(2) by auto
  have 2: "set (memoryData (snd (sealUserOnlineIp c sockets now socketIp userId st)) SealIpList)
      = set (memoryData st SealIpList) \<union> set ?ipList"
    unfolding sealUserOnlineIp_pass_store(1) [OF pass] clean ..
  have 3: "set (timers (snd (sealUserOnlineIp c sockets now socketIp userId st)))
      = set (timers st) \<union> sealTimer c now ` set ?ipList"
    unfolding sealUserOnlineIp_pass_store(2) [OF pass] fresh ..
  have 4: "\<forall>ip \<in> set ?ipList.
       existMemoryData (memoryData (snd (sealUserOnlineIp c sockets now socketIp userId st)))
         SealIpList ip"
    unfolding existMemoryData_def 2 by blast
  from 1 2 3 4 sealUserOnlineIp_pass_store(3) [OF pass] show ?thesis by blast
qed

theorem sealUserOnlineIp_all_clean_witness:
  "map socket_ip (Socket_find exampleSockets ''5d01'') = [''10.0.0.2'', ''10.0.0.4''] \<and>
   fst (sealUserOnlineIp exampleTimeouts exampleSockets 7 ''10.0.0.1'' ''5d01'' initialServer)
     = Returned MsgOk \<and>
   set (memoryData
          (snd (sealUserOnlineIp exampleTimeouts exampleSockets 7 ''10.0.0.1'' ''5d01''
             initialServer)) SealIpList)
     = {''10.0.0.2'', ''10.0.0.4''} \<and>
   set (timers
          (snd (sealUserOnlineIp exampleTimeouts exampleSockets 7 ''10.0.0.1'' ''5d01''
             initialServer)))
     = {\<lparr>armedAt = 7, delay = 21600000, target = SealIpList, entry = ''10.0.0.2''\<rparr>,
        \<lparr>armedAt = 7, delay = 21600000, target = SealIpList, entry = ''10.0.0.4''\<rparr>}"
proof -
  have ipList: "map socket_ip (Socket_find exampleSockets ''5d01'') = [''10.0.0.2'', ''10.0.0.4'']"
    by (simp add: Socket_find_def exampleSockets_def)
  have h1: "Socket_find exampleSockets ''5d01'' \<noteq> []"
    by (simp add: Socket_find_def exampleSockets_def)
  have h2: "\<forall>ip \<in> set (map socket_ip (Socket_find exampleSockets ''5d01'')).
           \<not> loopback ip \<and> ip \<noteq> ''10.0.0.1'' \<and>
           \<not> existMemoryData (memoryData initialServer) SealIpList ip"
    unfolding ipList by (simp add: loopback_def existMemoryData_def initialServer_def)
  show ?thesis
    using sealUserOnlineIp_all_clean [OF h1 h2, of exampleTimeouts 7] ipList
    by (simp add: initialServer_def sealTimer_def exampleTimeouts_def)
qed

theorem sealUserOnlineIp_all_clean_counterexample:
  "Socket_find exampleSockets ''5d07'' = [] \<and>
   fst (sealUserOnlineIp exampleTimeouts exampleSockets 9 ''10.0.0.1'' ''5d07'' initialServer)
     = Threw IpInSealList \<and>
   fst (sealUserOnlineIp exampleTimeouts exampleSockets 9 ''10.0.0.1'' ''5d07'' initialServer)
     \<noteq> Returned MsgOk"
  by (simp add: sealUserOnlineIp_def Socket_find_def exampleSockets_def)

text \<open>
  C1, as the code has it. When not every address of the user's sockets is already in
  the ip seal list, and at least one of them is loopback or the requester's,
  \<open>sealUserOnlineIp\<close> returns a message in place of \<open>{ msg: 'ok' }\<close>: the
  local-address or self-seal message of the last such address in the order of the
  sockets. Every address that is neither loopback nor the requester's is in the ip seal
  list afterwards, and a timer has been armed for each of them that was not sealed
  before.
\<close>

theorem sealUserOnlineIp_violation:
  assumes "ipList = map socket_ip (Socket_find sockets userId)"
    and "\<exists>ip \<in> set ipList. \<not> existMemoryData (memoryData st) SealIpList ip"
    and "\<exists>ip \<in> set ipList. loopback ip \<or> ip = socketIp"
  shows "fst (sealUserOnlineIp c sockets now socketIp userId st)
      = Returned (Text (violation (last (filter (\<lambda>ip. loopback ip \<or> ip = socketIp) ipList)))) \<and>
    (fst (sealUserOnlineIp c sockets now socketIp userId st) = Returned (Text CantSealLocalIp) \<or>
     fst (sealUserOnlineIp c sockets now socketIp userId st) = Returned (Text CantSealSelf)) \<and>
    (\<forall>ip \<in> set ipList. \<not> loopback ip \<and> ip \<noteq> socketIp \<longrightarrow>
       existMemoryData (memoryData (snd (sealUserOnlineIp c sockets now socketIp userId st)))
         SealIpList ip) \<and>
    set (memoryData (snd (sealUserOnlineIp c sockets now socketIp userId st)) SealIpList)
      = set (memoryData st SealIpList) \<union>
        {ip \<in> set ipList. \<not> loopback ip \<and> ip \<noteq> socketIp} \<and>
    set (timers (snd (sealUserOnlineIp c sockets now socketIp userId st)))
      = set (timers st) \<union>
        sealTimer c now `
          {ip \<in> set ipList. \<not> loopback ip \<and> ip \<noteq> socketIp
             \<and> \<not> existMemoryData (memoryData st) SealIpList ip}"
proof -
  have pass: "\<not> list_all (\<lambda>ip. existMemoryData (memoryData st) SealIpList ip)
                 (map socket_ip (Socket_find sockets userId))"
    using assms(1,2) unfolding list_all_iff by blast
  have 1: "fst (sealUserOnlineIp c sockets now socketIp userId st)
      = Returned (Text (violation (last (filter (\<lambda>ip. loopback ip \<or> ip = socketIp) ipList))))"
    unfolding sealUserOnlineIp_pass_reply [OF pass] using assms(1,3) by simp
  have 2: "fst (sealUserOnlineIp c sockets now socketIp userId st) = Returned (Text CantSealLocalIp) \<or>
     fst (sealUserOnlineIp c sockets now socketIp userId st) = Returned (Text CantSealSelf)"
    unfolding 1 violation_def by simp
  have 3: "set (memoryData (snd (sealUserOnlineIp c sockets now socketIp userId st)) SealIpList)
      = set (memoryData st SealIpList) \<union>
        {ip \<in> set ipList. \<not> loopback ip \<and> ip \<noteq> socketIp}"
    unfolding sealUserOnlineIp_pass_store(1) [OF pass] assms(1) ..
  have 4: "set (timers (snd (sealUserOnlineIp c sockets now socketIp userId st)))
      = set (timers st) \<union>
        sealTimer c now `
          {ip \<in> set ipList. \<not> loopback ip \<and> ip \<noteq> socketIp
             \<and> \<not> existMemoryData (memoryData st) SealIpList ip}"
    unfolding sealUserOnlineIp_pass_store(2) [OF pass] assms(1) existMemoryData_def ..
  have 5: "\<forall>ip \<in> set ipList. \<not> loopback ip \<and> ip \<noteq> socketIp \<longrightarrow>
       existMemoryData (memoryData (snd (sealUserOnlineIp c sockets now socketIp userId st)))
         SealIpList ip"
    unfolding existMemoryData_def 3 by blast
  from 1 2 3 4 5 show ?thesis by blast
qed

theorem sealUserOnlineIp_violation_witness:
  "map socket_ip (Socket_find exampleSockets ''5d02'') = [''127.0.0.1'', ''10.0.0.3''] \<and>
   fst (sealUserOnlineIp exampleTimeouts exampleSockets 7 ''10.0.0.1'' ''5d02'' initialServer)
     = Returned (Text CantSealLocalIp) \<and>
   set (memoryData
          (snd (sealUserOnlineIp exampleTimeouts exampleSockets 7 ''10.0.0.1'' ''5d02''
             initialServer)) SealIpList)
     = {''10.0.0.3''} \<and>
   set (timers
          (snd (sealUserOnlineIp exampleTimeouts exampleSockets 7 ''10.0.0.1'' ''5d02''
             initialServer)))
     = {\<lparr>armedAt = 7, delay = 21600000, target = SealIpList, entry = ''10.0.0.3''\<rparr>}"
proof -
  have ipList: "[''127.0.0.1'', ''10.0.0.3''] = map socket_ip (Socket_find exampleSockets ''5d02'')"
    by (simp add: Socket_find_def exampleSockets_def)
  have h2: "\<exists>ip \<in> set [''127.0.0.1'', ''10.0.0.3''].
              \<not> existMemoryData (memoryData initialServer) SealIpList ip"
    by (auto simp: existMemoryData_def initialServer_def)
  have h3: "\<exists>ip \<in> set [''127.0.0.1'', ''10.0.0.3'']. loopback ip \<or> ip = ''10.0.0.1''"
    by (simp add: loopback_def)
  have sel: "{ip \<in> set [''127.0.0.1'', ''10.0.0.3'']. \<not> loopback ip \<and> ip \<noteq> ''10.0.0.1''}
               = {''10.0.0.3''}"
    by (auto simp: loopback_def)
  have sel': "{ip \<in> set [''127.0.0.1'', ''10.0.0.3'']. \<not> loopback ip \<and> ip \<noteq> ''10.0.0.1''
                 \<and> \<not> existMemoryData (memoryData initialServer) SealIpList ip}
               = {''10.0.0.3''}"
    by (auto simp: loopback_def existMemoryData_def initialServer_def)
  have v: "violation (last (filter (\<lambda>ip. loopback ip \<or> ip = ''10.0.0.1'')
             [''127.0.0.1'', ''10.0.0.3''])) = CantSealLocalIp"
    by (simp add: loopback_def violation_def)
  show ?thesis
    using sealUserOnlineIp_violation [OF ipList h2 h3, of exampleTimeouts 7]
    unfolding sel sel' v
    by (simp add: ipList [symmetric] initialServer_def sealTimer_def exampleTimeouts_def)
qed

theorem sealUserOnlineIp_violation_counterexample:
  "map socket_ip
     (Socket_find [\<lparr>socket_user = ''5d01'', socket_ip = ''10.0.0.2''\<rparr>] ''5d01'')
     = [''10.0.0.2''] \<and>
   fst (sealIp exampleTimeouts 1 ''10.0.0.1'' ''10.0.0.2'' initialServer) = Returned MsgOk \<and>
   fst (sealUserOnlineIp exampleTimeouts
          [\<lparr>socket_user = ''5d01'', socket_ip = ''10.0.0.2''\<rparr>] 9 ''10.0.0.2'' ''5d01''
          (snd (sealIp exampleTimeouts 1 ''10.0.0.1'' ''10.0.0.2'' initialServer)))
     = Threw IpInSealList \<and>
   fst (sealUserOnlineIp exampleTimeouts
          [\<lparr>socket_user = ''5d01'', socket_ip = ''10.0.0.2''\<rparr>] 9 ''10.0.0.2'' ''5d01''
          (snd (sealIp exampleTimeouts 1 ''10.0.0.1'' ''10.0.0.2'' initialServer)))
     \<noteq> Returned (Text CantSealSelf)"
  by (simp add: sealUserOnlineIp_def sealIp_def Socket_find_def setTimeout_def
        existMemoryData_def addMemoryData_def initialServer_def)

subsection \<open>The token cache\<close>

text \<open>Arithmetic on whole numbers of magnitude at most \<open>2 ^ 53\<close> is exact.\<close>

lemma pow2_pos: "0 < pow2 k"
  by (simp add: pow2_def)

lemma roundTiesToEven_of_int: "roundTiesToEven (of_int k) = k"
  by (simp add: roundTiesToEven_def)

lemma round64_grid:
  assumes "r \<noteq> 0" and "\<bar>r\<bar> = of_int k * pow2 (max (ilog2 \<bar>r\<bar>) (- 1022) - 52)"
    and "\<bar>r\<bar> < pow2 1024"
  shows "round64 r = Fin r"
proof -
  let ?u = "pow2 (max (ilog2 \<bar>r\<bar>) (- 1022) - 52)"
  have u: "?u \<noteq> 0" using pow2_pos [of "max (ilog2 \<bar>r\<bar>) (- 1022) - 52"] by simp
  have "\<bar>r\<bar> / ?u = of_int k"
    using assms(2) u by (simp add: field_simps)
  then have m: "of_int (roundTiesToEven (\<bar>r\<bar> / ?u)) * ?u = \<bar>r\<bar>"
    using assms(2) by (simp add: roundTiesToEven_of_int)
  show ?thesis
    unfolding round64_def Let_def m using assms(1,3) by auto
qed

lemma ilog2_of_int:
  assumes "0 < n"
  shows "ilog2 (of_int n) = bitlen n - 1"
  using assms by (simp add: ilog2_def)

lemma round64_of_int:
  assumes "\<bar>n\<bar> \<le> 2 ^ 53"
  shows "round64 (of_int n) = Fin (of_int n)"
proof (cases "n = 0")
  case True
  then show ?thesis by (simp add: round64_def)
next
  case False
  define a where "a = \<bar>n\<bar>"
  have a: "0 < a" "a \<le> 2 ^ 53" using False assms by (simp_all add: a_def)
  define e where "e = bitlen a - 1"
  have abs: "\<bar>of_int n :: rat\<bar> = of_int a" by (simp add: a_def)
  have il: "ilog2 \<bar>of_int n\<bar> = e"
    unfolding abs e_def by (rule ilog2_of_int [OF a(1)])
  from bitlen_bounds [OF a(1)] have lo: "2 ^ nat e \<le> a" and hi: "a < 2 ^ nat (bitlen a)"
    by (simp_all add: e_def)
  have e0: "0 \<le> e"
    using a(1) bitlen_eq_zero_iff [of a] bitlen_nonneg [of a] by (simp add: e_def)
  have p: "(2::int) ^ nat e \<le> 2 ^ 53" by (rule order_trans [OF lo a(2)])
  have "nat e \<le> 53" by (rule power_le_imp_le_exp [OF _ p]) simp
  with e0 have e53: "e \<le> 53" by simp
  have mx: "max e (- 1022) = e" using e0 by simp
  have grid: "\<exists>k. (of_int a :: rat) = of_int k * pow2 (e - 52)"
  proof (cases "e \<le> 52")
    case True
    have "pow2 (e - 52) * 2 ^ nat (52 - e) = 1"
      using True by (auto simp: pow2_def)
    then have "(of_int a :: rat) = of_int a * (2 ^ nat (52 - e) * pow2 (e - 52))"
      by (simp add: mult.commute)
    also have "\<dots> = of_int (a * 2 ^ nat (52 - e)) * pow2 (e - 52)"
      by simp
    finally show ?thesis by blast
  next
    case False
    with e53 have e: "e = 53" by simp
    with lo a(2) have "a = 2 ^ 53" by simp
    then have "(of_int a :: rat) = of_int (2 ^ 52) * pow2 (e - 52)"
      by (simp add: e pow2_def)
    then show ?thesis by blast
  qed
  then obtain k where k: "(of_int a :: rat) = of_int k * pow2 (e - 52)" by blast
  have "(of_int a :: rat) \<le> 2 ^ 53" using a(2) by (metis of_int_le_iff of_int_numeral of_int_power)
  also have "\<dots> < pow2 1024" by (simp add: pow2_def)
  finally have small: "\<bar>of_int n :: rat\<bar> < pow2 1024" unfolding abs .
  show ?thesis
  proof (rule round64_grid [of _ k])
    show "(of_int n :: rat) \<noteq> 0" using False by simp
    show "\<bar>of_int n :: rat\<bar> = of_int k * pow2 (max (ilog2 \<bar>of_int n\<bar>) (- 1022) - 52)"
      unfolding il mx unfolding abs by (rule k)
    show "\<bar>of_int n :: rat\<bar> < pow2 1024" by (rule small)
  qed
qed


lemma roundTiesToEven_below_half:
  assumes "0 \<le> d" and "d < 1 / 2"
  shows "roundTiesToEven (of_int f + d) = f"
proof -
  have "\<lfloor>of_int f + d\<rfloor> = f" using assms by (simp add: floor_unique)
  then show ?thesis using assms by (simp add: roundTiesToEven_def)
qed

lemma sub64_of_int:
  "\<bar>a - b\<bar> \<le> 2 ^ 53 \<Longrightarrow> sub64 (Fin (of_int a)) (Fin (of_int b)) = Fin (of_int (a - b))"
  using round64_of_int [of "a - b"] by (simp add: sub64_def)

lemma mul64_of_int:
  "\<bar>a * b\<bar> \<le> 2 ^ 53 \<Longrightarrow> mul64 (Fin (of_int a)) (Fin (of_int b)) = Fin (of_int (a * b))"
  using round64_of_int [of "a * b"] by simp

lemma add64_of_int:
  "\<bar>a + b\<bar> \<le> 2 ^ 53 \<Longrightarrow> add64 (Fin (of_int a)) (Fin (of_int b)) = Fin (of_int (a + b))"
  using round64_of_int [of "a + b"] by simp

lemma validUntil_exact:
  assumes "\<bar>(n - 86400) * 1000\<bar> \<le> 2 ^ 53" and "\<bar>t + (n - 86400) * 1000\<bar> \<le> 2 ^ 53"
  shows "add64 (Fin (of_int t)) (mul64 (sub64 (Fin (of_int n)) (Fin (60 * 60 * 24))) (Fin 1000))
           = Fin (of_int (t + 1000 * n - 1000 * 86400))"
proof -
  have 1: "\<bar>n - 86400\<bar> \<le> 2 ^ 53" using assms(1) by simp
  have c: "(60 * 60 * 24 :: rat) = of_int 86400" "(1000 :: rat) = of_int 1000" by simp_all
  have "sub64 (Fin (of_int n)) (Fin (60 * 60 * 24)) = Fin (of_int (n - 86400))"
    unfolding c by (rule sub64_of_int [OF 1])
  moreover have "mul64 (Fin (of_int (n - 86400))) (Fin 1000) = Fin (of_int ((n - 86400) * 1000))"
    unfolding c by (rule mul64_of_int [OF assms(1)])
  moreover have "add64 (Fin (of_int t)) (Fin (of_int ((n - 86400) * 1000)))
                   = Fin (of_int (t + (n - 86400) * 1000))"
    by (rule add64_of_int [OF assms(2)])
  moreover have "t + (n - 86400) * 1000 = t + 1000 * n - 1000 * 86400" by simp
  ultimately show ?thesis by simp
qed

text \<open>
  C7, as the code has it. When a truthy token is held and the instant of the call is
  before \<open>lastBaiduTokenTime\<close>, \<open>getBaiduToken\<close> returns the held token and
  changes nothing: no request is sent. Otherwise exactly one request is sent. When it
  is answered with status 200 and a body, the token of the answer is stored and
  returned, and \<open>lastBaiduTokenTime\<close> becomes, in double arithmetic, the instant at
  which the answer is read plus 1000 times the provider's lifetime less 86400 seconds;
  that is the exact sum whenever the lifetime is a whole number and the product and
  the sum stay within \<open>2 ^ 53\<close> in magnitude. When the request is rejected, or
  answered with another status or without a body, the call throws, and the token and
  \<open>lastBaiduTokenTime\<close> are as before.
\<close>

theorem getBaiduToken_cache:
  "(ToBoolean (baiduToken st) \<and> lt64 (Fin (of_int now1)) (lastBaiduTokenTime st) \<longrightarrow>
      getBaiduToken now1 now2 res st = (Returned (baiduToken st), st)) \<and>
   (\<not> (ToBoolean (baiduToken st) \<and> lt64 (Fin (of_int now1)) (lastBaiduTokenTime st)) \<longrightarrow>
      requests (snd (getBaiduToken now1 now2 res st)) = requests st + 1 \<and>
      (res = Some r \<and> status r = 200 \<and> data r = Some d \<longrightarrow>
         fst (getBaiduToken now1 now2 res st) = Returned (access_token d) \<and>
         baiduToken (snd (getBaiduToken now1 now2 res st)) = access_token d \<and>
         lastBaiduTokenTime (snd (getBaiduToken now1 now2 res st))
           = add64 (Fin (of_int now2)) (mul64 (sub64 (expires_in d) (Fin 86400)) (Fin 1000)) \<and>
         (expires_in d = Fin (of_int n) \<and> \<bar>(n - 86400) * 1000\<bar> \<le> 2 ^ 53 \<and>
          \<bar>now2 + (n - 86400) * 1000\<bar> \<le> 2 ^ 53 \<longrightarrow>
            lastBaiduTokenTime (snd (getBaiduToken now1 now2 res st))
              = Fin (of_int (now2 + 1000 * n - 1000 * 86400)))) \<and>
      (res = None \<or> (res = Some r \<and> (status r \<noteq> 200 \<or> data r = None)) \<longrightarrow>
         fst (getBaiduToken now1 now2 res st)
           \<in> {Threw AxiosRejected, Threw BaiduTokenFailed, Threw TypeError} \<and>
         baiduToken (snd (getBaiduToken now1 now2 res st)) = baiduToken st \<and>
         lastBaiduTokenTime (snd (getBaiduToken now1 now2 res st)) = lastBaiduTokenTime st))"
proof -
  let ?hit = "ToBoolean (baiduToken st) \<and> lt64 (Fin (of_int now1)) (lastBaiduTokenTime st)"
  let ?out = "getBaiduToken now1 now2 res st"
  have hit: "?hit \<longrightarrow> ?out = (Returned (baiduToken st), st)"
    by (simp add: getBaiduToken_def)
  have count: "requests (snd ?out) = requests st + 1" if "\<not> ?hit"
    using that by (simp add: getBaiduToken_def Let_def split: option.splits)
  have ok: "fst ?out = Returned (access_token d) \<and>
      baiduToken (snd ?out) = access_token d \<and>
      lastBaiduTokenTime (snd ?out)
        = add64 (Fin (of_int now2)) (mul64 (sub64 (expires_in d) (Fin 86400)) (Fin 1000))"
    if "\<not> ?hit" "res = Some r" "status r = 200" "data r = Some d"
    using that by (auto simp: getBaiduToken_def Let_def)
  have c: "(60 * 60 * 24 :: rat) = 86400" by simp
  have exact: "lastBaiduTokenTime (snd ?out) = Fin (of_int (now2 + 1000 * n - 1000 * 86400))"
    if "\<not> ?hit" "res = Some r" "status r = 200" "data r = Some d"
       "expires_in d = Fin (of_int n)" "\<bar>(n - 86400) * 1000\<bar> \<le> 2 ^ 53"
       "\<bar>now2 + (n - 86400) * 1000\<bar> \<le> 2 ^ 53"
    using ok [OF that(1-4)] validUntil_exact [OF that(6,7)] that(5) unfolding c by simp
  have fail: "fst ?out \<in> {Threw AxiosRejected, Threw BaiduTokenFailed, Threw TypeError} \<and>
      baiduToken (snd ?out) = baiduToken st \<and>
      lastBaiduTokenTime (snd ?out) = lastBaiduTokenTime st"
    if "\<not> ?hit" "res = None \<or> (res = Some r \<and> (status r \<noteq> 200 \<or> data r = None))"
    using that by (auto simp: getBaiduToken_def Let_def)
  from hit count ok exact fail show ?thesis by blast
qed


theorem getBaiduToken_cache_witness:
  "getBaiduToken 2000 2100
       (Some \<lparr>status = 200,
          data = Some \<lparr>access_token = JString ''tok1'', expires_in = Fin 2592000\<rparr>\<rparr>)
       (initialTokenCache 1000)
     = (Returned (JString ''tok1''),
        \<lparr>baiduToken = JString ''tok1'', lastBaiduTokenTime = Fin 2505602100, requests = 1\<rparr>) \<and>
   getBaiduToken 5000 5100
       (Some \<lparr>status = 200,
          data = Some \<lparr>access_token = JString ''tok2'', expires_in = Fin 2592000\<rparr>\<rparr>)
       \<lparr>baiduToken = JString ''tok1'', lastBaiduTokenTime = Fin 2505602100, requests = 1\<rparr>
     = (Returned (JString ''tok1''),
        \<lparr>baiduToken = JString ''tok1'', lastBaiduTokenTime = Fin 2505602100, requests = 1\<rparr>) \<and>
   getBaiduToken 2505602100 2505602200
       (Some \<lparr>status = 200,
          data = Some \<lparr>access_token = JString ''tok2'', expires_in = Fin 2592000\<rparr>\<rparr>)
       \<lparr>baiduToken = JString ''tok1'', lastBaiduTokenTime = Fin 2505602100, requests = 1\<rparr>
     = (Returned (JString ''tok2''),
        \<lparr>baiduToken = JString ''tok2'', lastBaiduTokenTime = Fin 5011202200, requests = 2\<rparr>) \<and>
   getBaiduToken 2505602100 2505602200 (Some \<lparr>status = 204, data = Some \<lparr>access_token = JUndefined, expires_in = NaN\<rparr>\<rparr>)
       \<lparr>baiduToken = JString ''tok1'', lastBaiduTokenTime = Fin 2505602100, requests = 1\<rparr>
     = (Threw BaiduTokenFailed,
        \<lparr>baiduToken = JString ''tok1'', lastBaiduTokenTime = Fin 2505602100, requests = 2\<rparr>)"
proof -
  let ?d1 = "\<lparr>access_token = JString ''tok1'', expires_in = Fin 2592000\<rparr>"
  let ?d2 = "\<lparr>access_token = JString ''tok2'', expires_in = Fin 2592000\<rparr>"
  let ?r1 = "\<lparr>status = 200, data = Some ?d1\<rparr>"
  let ?r2 = "\<lparr>status = 200, data = Some ?d2\<rparr>"
  let ?r3 = "\<lparr>status = 204, data = Some \<lparr>access_token = JUndefined, expires_in = NaN\<rparr>\<rparr>"
  let ?st1 = "\<lparr>baiduToken = JString ''tok1'', lastBaiduTokenTime = Fin 2505602100, requests = 1\<rparr>"
  have first: "getBaiduToken 2000 2100 (Some ?r1) (initialTokenCache 1000)
      = (Returned (JString ''tok1''), ?st1)"
    using getBaiduToken_cache [where st = "initialTokenCache 1000" and ?now1.0 = 2000
        and ?now2.0 = 2100 and res = "Some ?r1" and r = ?r1 and d = ?d1 and n = 2592000]
    by (cases "getBaiduToken 2000 2100 (Some ?r1) (initialTokenCache 1000)")
       (auto simp: initialTokenCache_def intro: tokenCache.equality)
  have second: "getBaiduToken 5000 5100 (Some ?r2) ?st1 = (Returned (JString ''tok1''), ?st1)"
    using getBaiduToken_cache [where st = ?st1 and ?now1.0 = 5000 and ?now2.0 = 5100
        and res = "Some ?r2" and r = ?r2 and d = ?d2 and n = 2592000]
    by simp
  have third: "getBaiduToken 2505602100 2505602200 (Some ?r2) ?st1
      = (Returned (JString ''tok2''),
         \<lparr>baiduToken = JString ''tok2'', lastBaiduTokenTime = Fin 5011202200, requests = 2\<rparr>)"
    using getBaiduToken_cache [where st = ?st1 and ?now1.0 = 2505602100
        and ?now2.0 = 2505602200 and res = "Some ?r2" and r = ?r2 and d = ?d2 and n = 2592000]
    by (cases "getBaiduToken 2505602100 2505602200 (Some ?r2) ?st1")
       (auto intro: tokenCache.equality)
  have fourth: "getBaiduToken 2505602100 2505602200 (Some ?r3) ?st1
      = (Threw BaiduTokenFailed,
         \<lparr>baiduToken = JString ''tok1'', lastBaiduTokenTime = Fin 2505602100, requests = 2\<rparr>)"
    using getBaiduToken_cache [where st = ?st1 and ?now1.0 = 2505602100
        and ?now2.0 = 2505602200 and res = "Some ?r3" and r = ?r3 and d = ?d2 and n = 2592000]
    by (cases "getBaiduToken 2505602100 2505602200 (Some ?r3) ?st1")
       (auto simp: getBaiduToken_def intro: tokenCache.equality)
  from first second third fourth show ?thesis by blast
qed

theorem getBaiduToken_cache_counterexample:
  "\<not> ToBoolean (baiduToken (initialTokenCache 1000)) \<and>
   getBaiduToken 2000 2100 None (initialTokenCache 1000)
     = (Threw AxiosRejected,
        \<lparr>baiduToken = JString [], lastBaiduTokenTime = Fin 1000, requests = 1\<rparr>) \<and>
   getBaiduToken 2000 2100 (Some \<lparr>status = 204, data = Some \<lparr>access_token = JUndefined, expires_in = NaN\<rparr>\<rparr>) (initialTokenCache 1000)
     = (Threw BaiduTokenFailed,
        \<lparr>baiduToken = JString [], lastBaiduTokenTime = Fin 1000, requests = 1\<rparr>)"
  by (simp add: getBaiduToken_def initialTokenCache_def)

text \<open>
  Beyond \<open>2 ^ 53\<close> the stored instant is the rounded one: for a lifetime of
  \<open>2 ^ 53\<close> seconds read at instant 2100, the exact sum ends in 594100 and the double
  stored ends in 594048.
\<close>

lemma round64_near:
  assumes "0 < r" and "ilog2 r = e" and "- 1022 \<le> e"
    and "r = (of_int f + d) * pow2 (e - 52)" and "0 \<le> d" and "d < 1 / 2"
    and "of_int f * pow2 (e - 52) < pow2 1024"
  shows "round64 r = Fin (of_int f * pow2 (e - 52))"
proof -
  have u: "pow2 (e - 52) \<noteq> 0" using pow2_pos [of "e - 52"] by simp
  have abs: "\<bar>r\<bar> = r" using assms(1) by simp
  have mx: "max e (- 1022) = e" using assms(3) by simp
  have "r / pow2 (e - 52) = of_int f + d"
    using assms(4) u by (simp add: field_simps)
  then have n: "roundTiesToEven (r / pow2 (e - 52)) = f"
    using roundTiesToEven_below_half [OF assms(5,6), of f] by simp
  show ?thesis
    unfolding round64_def Let_def abs assms(2) mx n using assms(1,7) by auto
qed

lemma ilog2_example1: "ilog2 9007199254654592000 = 62"
  by code_simp

lemma ilog2_example2: "ilog2 9007199254654594100 = 62"
  by code_simp

lemma round64_example1: "round64 9007199254654592000 = Fin 9007199254654592000"
proof (rule round64_grid [of _ 8796093022123625])
  show "(9007199254654592000 :: rat) \<noteq> 0" by simp
  have a: "\<bar>9007199254654592000 :: rat\<bar> = 9007199254654592000" by simp
  show "\<bar>9007199254654592000 :: rat\<bar>
          = of_int 8796093022123625 * pow2 (max (ilog2 \<bar>9007199254654592000\<bar>) (- 1022) - 52)"
    unfolding a ilog2_example1 by (simp add: pow2_def)
  show "\<bar>9007199254654592000 :: rat\<bar> < pow2 1024"
    unfolding a by (simp add: pow2_def)
qed

lemma round64_example2: "round64 9007199254654594100 = Fin 9007199254654594048"
proof -
  have "round64 9007199254654594100 = Fin (of_int 8796093022123627 * pow2 (62 - 52))"
  proof (rule round64_near [where d = "13 / 256"])
    show "(0::rat) < 9007199254654594100" by simp
    show "ilog2 9007199254654594100 = 62" by (rule ilog2_example2)
    show "- 1022 \<le> (62::int)" by simp
    show "(9007199254654594100 :: rat) = (of_int 8796093022123627 + 13 / 256) * pow2 (62 - 52)"
      by (simp add: pow2_def)
    show "(0::rat) \<le> 13 / 256" by simp
    show "(13 / 256 :: rat) < 1 / 2" by simp
    show "of_int 8796093022123627 * pow2 (62 - 52) < pow2 1024"
      by (simp add: pow2_def)
  qed
  then show ?thesis by (simp add: pow2_def)
qed

lemma getBaiduToken_rounds:
  "lastBaiduTokenTime (snd (getBaiduToken 2000 2100
      (Some \<lparr>status = 200,
         data = Some \<lparr>access_token = JString ''tok1'', expires_in = Fin (2 ^ 53)\<rparr>\<rparr>)
      (initialTokenCache 1000)))
     = Fin 9007199254654594048"
proof -
  have 1: "sub64 (Fin 9007199254740992) (Fin 86400) = Fin 9007199254654592"
    using sub64_of_int [of 9007199254740992 86400] by simp
  have 2: "mul64 (Fin 9007199254654592) (Fin 1000) = Fin 9007199254654592000"
    using round64_example1 by simp
  have 3: "add64 (Fin 2100) (Fin 9007199254654592000) = Fin 9007199254654594048"
    using round64_example2 by simp
  show ?thesis
    by (simp add: getBaiduToken_def initialTokenCache_def Let_def del: add64.simps mul64.simps)
       (simp only: 1 2 3)
qed

subsection \<open>Listing the seals\<close>

lemma sealUser_ok:
  assumes "fst (sealUser c db now name st) = Returned MsgOk"
  shows "\<exists>u. User_findOne db name = Some u \<and>
             memoryData (snd (sealUser c db now name st)) SealUserList
               = memoryData st SealUserList @ [user_id u]"
proof (cases "User_findOne db name")
  case None
  with assms show ?thesis
    by (simp add: sealUser_def split: if_splits)
next
  case (Some u)
  with assms show ?thesis
    by (simp add: sealUser_def Let_def setTimeout_def addMemoryData_def existMemoryData_def
          split: if_splits)
qed

lemma getSealList_users:
  "users (getSealList db st)
     = map username (filter (\<lambda>u. user_id u \<in> set (memoryData st SealUserList)) db)"
  by (simp add: getSealList_def getMemoryData_def User_find_def Let_def)

text \<open>
  C9. \<open>getSealList\<close> returns the usernames of the users whose identifier is a key
  of the user seal list, and the keys of the ip seal list as they are. The usernames
  depend on the set of sealed identifiers only, not on the order in which they were
  sealed. After two successful calls of \<open>sealUser\<close> from the empty store, for the
  names \<open>a\<close> and \<open>b\<close>, the usernames returned are exactly \<open>a\<close> and \<open>b\<close>
  (identifiers are unique in the user collection).
\<close>

theorem getSealList_result:
  "set (users (getSealList db st))
     = username ` {u \<in> set db. user_id u \<in> set (memoryData st SealUserList)} \<and>
   ips (getSealList db st) = memoryData st SealIpList \<and>
   (set (memoryData st' SealUserList) = set (memoryData st SealUserList) \<longrightarrow>
      users (getSealList db st') = users (getSealList db st)) \<and>
   (distinct (map user_id db) \<and>
    fst (sealUser c db t1 a initialServer) = Returned MsgOk \<and>
    fst (sealUser c db t2 b (snd (sealUser c db t1 a initialServer))) = Returned MsgOk \<longrightarrow>
      set (users (getSealList db
             (snd (sealUser c db t2 b (snd (sealUser c db t1 a initialServer)))))) = {a, b})"
proof -
  have 1: "set (users (getSealList db st))
     = username ` {u \<in> set db. user_id u \<in> set (memoryData st SealUserList)}" for st
    unfolding getSealList_users by auto
  have 2: "ips (getSealList db st) = memoryData st SealIpList"
    by (simp add: getSealList_def getMemoryData_def Let_def)
  have 3: "set (memoryData st' SealUserList) = set (memoryData st SealUserList) \<longrightarrow>
      users (getSealList db st') = users (getSealList db st)"
    unfolding getSealList_users by simp
  have 4: "set (users (getSealList db
             (snd (sealUser c db t2 b (snd (sealUser c db t1 a initialServer)))))) = {a, b}"
    if d: "distinct (map user_id db)"
      and oka: "fst (sealUser c db t1 a initialServer) = Returned MsgOk"
      and okb: "fst (sealUser c db t2 b (snd (sealUser c db t1 a initialServer))) = Returned MsgOk"
  proof -
    let ?st1 = "snd (sealUser c db t1 a initialServer)"
    let ?st2 = "snd (sealUser c db t2 b ?st1)"
    from sealUser_ok [OF oka] obtain ua where
      ua: "User_findOne db a = Some ua"
          "memoryData ?st1 SealUserList = memoryData initialServer SealUserList @ [user_id ua]"
      by blast
    from sealUser_ok [OF okb] obtain ub where
      ub: "User_findOne db b = Some ub"
          "memoryData ?st2 SealUserList = memoryData ?st1 SealUserList @ [user_id ub]"
      by blast
    have keys: "set (memoryData ?st2 SealUserList) = {user_id ua, user_id ub}"
      unfolding ub(2) ua(2) by (simp add: initialServer_def)
    from User_findOne_Some [OF ua(1)] have a: "ua \<in> set db" "username ua = a" by simp_all
    from User_findOne_Some [OF ub(1)] have b: "ub \<in> set db" "username ub = b" by simp_all
    from d have inj: "inj_on user_id (set db)"
      by (simp add: distinct_map)
    have "{u \<in> set db. user_id u \<in> {user_id ua, user_id ub}} = {ua, ub}"
      using a(1) b(1) inj by (auto dest: inj_onD)
    then have "set (users (getSealList db ?st2)) = username ` {ua, ub}"
      unfolding 1 keys by simp
    then show ?thesis using a(2) b(2) by simp
  qed
  from 1 2 3 4 show ?thesis by blast
qed

theorem getSealList_result_witness:
  "distinct (map user_id exampleUsers) \<and>
   fst (sealUser exampleTimeouts exampleUsers 1 ''bob'' initialServer) = Returned MsgOk \<and>
   fst (sealUser exampleTimeouts exampleUsers 2 ''alice''
          (snd (sealUser exampleTimeouts exampleUsers 1 ''bob'' initialServer)))
     = Returned MsgOk \<and>
   memoryData (snd (sealUser exampleTimeouts exampleUsers 2 ''alice''
          (snd (sealUser exampleTimeouts exampleUsers 1 ''bob'' initialServer)))) SealUserList
     = [''5d02'', ''5d01''] \<and>
   users (getSealList exampleUsers
          (snd (sealUser exampleTimeouts exampleUsers 2 ''alice''
             (snd (sealUser exampleTimeouts exampleUsers 1 ''bob'' initialServer)))))
     = [''alice'', ''bob''] \<and>
   set (users (getSealList exampleUsers
          (snd (sealUser exampleTimeouts exampleUsers 2 ''alice''
             (snd (sealUser exampleTimeouts exampleUsers 1 ''bob'' initialServer))))))
     = {''bob'', ''alice''} \<and>
   users (getSealList exampleUsers
          (snd (sealUser exampleTimeouts exampleUsers 2 ''bob''
             (snd (sealUser exampleTimeouts exampleUsers 1 ''alice'' initialServer)))))
     = [''alice'', ''bob'']"
proof -
  let ?st1 = "snd (sealUser exampleTimeouts exampleUsers 1 ''bob'' initialServer)"
  let ?st2 = "snd (sealUser exampleTimeouts exampleUsers 2 ''alice'' ?st1)"
  let ?st2' = "snd (sealUser exampleTimeouts exampleUsers 2 ''bob''
                 (snd (sealUser exampleTimeouts exampleUsers 1 ''alice'' initialServer)))"
  have d: "distinct (map user_id exampleUsers)"
    by (simp add: exampleUsers_def)
  have ok1: "fst (sealUser exampleTimeouts exampleUsers 1 ''bob'' initialServer) = Returned MsgOk"
    by (simp add: sealUser_def Let_def User_findOne_def exampleUsers_def existMemoryData_def
          initialServer_def)
  have keys1: "memoryData ?st1 SealUserList = [''5d02'']"
    by (simp add: sealUser_def Let_def User_findOne_def exampleUsers_def existMemoryData_def
          addMemoryData_def setTimeout_def initialServer_def)
  have ok2: "fst (sealUser exampleTimeouts exampleUsers 2 ''alice'' ?st1) = Returned MsgOk"
    using keys1
    by (simp add: sealUser_def [of _ _ 2] Let_def User_findOne_def exampleUsers_def
          existMemoryData_def)
  have keys2: "memoryData ?st2 SealUserList = [''5d02'', ''5d01'']"
    using keys1
    by (simp add: sealUser_def [of _ _ 2] Let_def User_findOne_def exampleUsers_def
          existMemoryData_def addMemoryData_def setTimeout_def)
  have keys2': "memoryData ?st2' SealUserList = [''5d01'', ''5d02'']"
    by (simp add: sealUser_def Let_def User_findOne_def exampleUsers_def existMemoryData_def
          addMemoryData_def setTimeout_def initialServer_def)
  have same: "set (memoryData ?st2' SealUserList) = set (memoryData ?st2 SealUserList)"
    unfolding keys2 keys2' by auto
  have list: "users (getSealList exampleUsers ?st2) = [''alice'', ''bob'']"
    unfolding getSealList_users keys2 by (simp add: exampleUsers_def)
  from getSealList_result [of exampleUsers ?st2 ?st2' exampleTimeouts 1 "''bob''" 2 "''alice''"]
    d ok1 ok2 same
  have "set (users (getSealList exampleUsers ?st2)) = {''bob'', ''alice''}"
    and "users (getSealList exampleUsers ?st2') = users (getSealList exampleUsers ?st2)"
    by blast+
  with d ok1 ok2 keys2 list show ?thesis by simp
qed

end
